theory Spec2Isabelle
  imports Complex_Main
begin

section \<open>JavaScript values\<close>

text \<open>
  The components hold JSON data and filter objects in untyped JavaScript variables, so the
  model has one type of values. A number is a real, an infinity or \<open>NaN\<close>; a finite
  number stands for the decimal it prints as, which preserves the order of numbers, so
  \<open>score >= 0.8\<close> is the comparison with \<open>8 / 10\<close>, and which is the number itself for
  an integer of magnitude at most \<open>2 ^ 53\<close>. An object is the list of its own properties in
  property order; a string is a list of code units. The values are those of JSON and of the
  filter controls: no property holds a function, and no object has a property of its own
  named like a method (\<open>toString\<close>, \<open>valueOf\<close>).
\<close>

datatype jsnum = Finite real | PosInf | NegInf | NaN

datatype jsval =
    JUndefined
  | JNull
  | JBool bool
  | JNumber jsnum
  | JStr string
  | JArr "jsval list"
  | JObj "(string \<times> jsval) list"

type_synonym obj = "(string \<times> jsval) list"

text \<open>
  What the program takes from its platform and its libraries and the repository does not
  define: \<open>Number::toString\<close> on finite numbers, the conversion of a string to a number, the
  percent-encoding of the \<open>application/x-www-form-urlencoded\<close> serializer, the rounded
  sum of two finite numbers, \<open>String.prototype.toLowerCase\<close>, \<open>Date.parse\<close>, and the
  words in which \<open>date-fns\<close> puts the distance from a time to now.
\<close>

record platform =
  numToString :: "real \<Rightarrow> string"
  stringToNumber :: "string \<Rightarrow> jsnum"
  encode :: "string \<Rightarrow> string"
  doubleAdd :: "real \<Rightarrow> real \<Rightarrow> jsnum"
  toLowerCase :: "string \<Rightarrow> string"
  dateParse :: "string \<Rightarrow> jsnum"
  distanceToNow :: "real \<Rightarrow> string"

text \<open>
  What a render can throw: a \<open>TypeError\<close> of the language, the \<open>RangeError\<close> of
  \<open>date-fns\<close> for an invalid date, and the error of React for an object as a child.
\<close>

datatype js_error = TypeError | RangeError | ChildError

fun intercalate :: "string \<Rightarrow> string list \<Rightarrow> string" where
  "intercalate sep [] = []"
| "intercalate sep [x] = x"
| "intercalate sep (x # y # ys) = x @ sep @ intercalate sep (y # ys)"

text \<open>\<open>String(v)\<close>; \<open>Array.prototype.join\<close> prints \<open>undefined\<close> and \<open>null\<close> as the empty string.\<close>

fun ToString :: "platform \<Rightarrow> jsval \<Rightarrow> string" where
  "ToString pf JUndefined = ''undefined''"
| "ToString pf JNull = ''null''"
| "ToString pf (JBool b) = (if b then ''true'' else ''false'')"
| "ToString pf (JNumber NaN) = ''NaN''"
| "ToString pf (JNumber PosInf) = ''Infinity''"
| "ToString pf (JNumber NegInf) = ''-Infinity''"
| "ToString pf (JNumber (Finite r)) = numToString pf r"
| "ToString pf (JStr s) = s"
| "ToString pf (JArr xs) =
     intercalate '','' (map (\<lambda>x. if x = JUndefined \<or> x = JNull then [] else ToString pf x) xs)"
| "ToString pf (JObj ps) = ''[object Object]''"


fun ToBoolean :: "jsval \<Rightarrow> bool" where
  "ToBoolean JUndefined = False"
| "ToBoolean JNull = False"
| "ToBoolean (JBool b) = b"
| "ToBoolean (JNumber NaN) = False"
| "ToBoolean (JNumber PosInf) = True"
| "ToBoolean (JNumber NegInf) = True"
| "ToBoolean (JNumber (Finite r)) = (r \<noteq> 0)"
| "ToBoolean (JStr s) = (s \<noteq> [])"
| "ToBoolean (JArr xs) = True"
| "ToBoolean (JObj ps) = True"

text \<open>A plain array or object has no primitive \<open>valueOf\<close>, so both hints give its string.\<close>

fun ToPrimitive :: "platform \<Rightarrow> jsval \<Rightarrow> jsval" where
  "ToPrimitive pf (JArr xs) = JStr (ToString pf (JArr xs))"
| "ToPrimitive pf (JObj ps) = JStr (ToString pf (JObj ps))"
| "ToPrimitive pf v = v"

fun ToNumber :: "platform \<Rightarrow> jsval \<Rightarrow> jsnum" where
  "ToNumber pf JUndefined = NaN"
| "ToNumber pf JNull = Finite 0"
| "ToNumber pf (JBool b) = Finite (if b then 1 else 0)"
| "ToNumber pf (JNumber n) = n"
| "ToNumber pf (JStr s) = stringToNumber pf s"
| "ToNumber pf (JArr xs) = stringToNumber pf (ToString pf (JArr xs))"
| "ToNumber pf (JObj ps) = stringToNumber pf (ToString pf (JObj ps))"

text \<open>
  The sum of two numbers is the double nearest to the exact sum. An integer of magnitude at
  most \<open>2 ^ 53\<close> is a double, so the sum of two such integers is exact when it is such an
  integer again; every other sum of finite numbers is the platform's rounded sum.
\<close>

definition exact_integer :: "real \<Rightarrow> bool" where
  "exact_integer r = (of_int \<lfloor>r\<rfloor> = r \<and> \<bar>r\<bar> \<le> 2 ^ 53)"

fun num_add :: "platform \<Rightarrow> jsnum \<Rightarrow> jsnum \<Rightarrow> jsnum" where
  "num_add pf (Finite a) (Finite b) =
     (if exact_integer a \<and> exact_integer b \<and> exact_integer (a + b) then Finite (a + b)
      else doubleAdd pf a b)"
| "num_add pf NaN b = NaN"
| "num_add pf a NaN = NaN"
| "num_add pf PosInf NegInf = NaN"
| "num_add pf NegInf PosInf = NaN"
| "num_add pf PosInf b = PosInf"
| "num_add pf a PosInf = PosInf"
| "num_add pf NegInf b = NegInf"
| "num_add pf a NegInf = NegInf"

fun is_string :: "jsval \<Rightarrow> bool" where
  "is_string (JStr s) = True"
| "is_string v = False"

text \<open>The operator \<open>+\<close>: concatenation when either primitive is a string, else the sum.\<close>

definition js_add :: "platform \<Rightarrow> jsval \<Rightarrow> jsval \<Rightarrow> jsval" where
  "js_add pf a b =
     (let pa = ToPrimitive pf a; pb = ToPrimitive pf b
      in if is_string pa \<or> is_string pb then JStr (ToString pf pa @ ToString pf pb)
         else JNumber (num_add pf (ToNumber pf pa) (ToNumber pf pb)))"

fun str_lt :: "string \<Rightarrow> string \<Rightarrow> bool" where
  "str_lt [] [] = False"
| "str_lt [] (y # ys) = True"
| "str_lt (x # xs) [] = False"
| "str_lt (x # xs) (y # ys) =
     (if (of_char x :: nat) < of_char y then True
      else if (of_char y :: nat) < of_char x then False
      else str_lt xs ys)"

text \<open>
  The relational comparison \<open>a < b\<close>: \<open>None\<close> is the specification's \<open>undefined\<close>, the
  result when an operand is \<open>NaN\<close>. Then \<open>a > b\<close> is \<open>b < a\<close>, and \<open>a >= b\<close> holds when
  \<open>a < b\<close> is false.
\<close>

fun num_lt :: "jsnum \<Rightarrow> jsnum \<Rightarrow> bool option" where
  "num_lt NaN b = None"
| "num_lt a NaN = None"
| "num_lt (Finite a) (Finite b) = Some (a < b)"
| "num_lt (Finite a) PosInf = Some True"
| "num_lt (Finite a) NegInf = Some False"
| "num_lt PosInf b = Some False"
| "num_lt NegInf NegInf = Some False"
| "num_lt NegInf b = Some True"

definition js_lt :: "platform \<Rightarrow> jsval \<Rightarrow> jsval \<Rightarrow> bool option" where
  "js_lt pf a b =
     (let pa = ToPrimitive pf a; pb = ToPrimitive pf b
      in case (pa, pb) of
           (JStr s, JStr t) \<Rightarrow> Some (str_lt s t)
         | _ \<Rightarrow> num_lt (ToNumber pf pa) (ToNumber pf pb))"


definition js_ge :: "platform \<Rightarrow> jsval \<Rightarrow> jsval \<Rightarrow> bool" where
  "js_ge pf a b = (js_lt pf a b = Some False)"

subsection \<open>Objects and property access\<close>

definition obj_get :: "obj \<Rightarrow> string \<Rightarrow> jsval" where
  "obj_get ps k = (case map_of ps k of None \<Rightarrow> JUndefined | Some v \<Rightarrow> v)"

text \<open>
  Assigning a property keeps the position of an existing key and appends a new one. (A key
  that is an array index would be ordered before the others; the program uses none.)
\<close>

fun obj_set :: "string \<Rightarrow> jsval \<Rightarrow> obj \<Rightarrow> obj" where
  "obj_set k v [] = [(k, v)]"
| "obj_set k v ((k', v') # ps) = (if k = k' then (k, v) # ps else (k', v') # obj_set k v ps)"

text \<open>
  \<open>v.k\<close> for the property names the program reads (\<open>length\<close> and names of JSON fields;
  none is an array index or a method). Reading a property of \<open>undefined\<close> or \<open>null\<close>
  throws.
\<close>

fun GetV :: "jsval \<Rightarrow> string \<Rightarrow> js_error + jsval" where
  "GetV JUndefined k = Inl TypeError"
| "GetV JNull k = Inl TypeError"
| "GetV (JObj ps) k = Inr (obj_get ps k)"
| "GetV (JArr xs) k =
     Inr (if k = ''length'' then JNumber (Finite (real (length xs))) else JUndefined)"
| "GetV (JStr s) k =
     Inr (if k = ''length'' then JNumber (Finite (real (length s))) else JUndefined)"
| "GetV (JBool b) k = Inr JUndefined"
| "GetV (JNumber n) k = Inr JUndefined"

text \<open>Optional chaining \<open>v?.k\<close>: \<open>undefined\<close> where \<open>v.k\<close> would throw.\<close>

definition opt_get :: "jsval \<Rightarrow> string \<Rightarrow> jsval" where
  "opt_get v k = (case GetV v k of Inl e \<Rightarrow> JUndefined | Inr x \<Rightarrow> x)"

section \<open>The API facade\<close>

datatype http_method = GET | POST

text \<open>A request: its method and its path below the configured base URL.\<close>

type_synonym request = "http_method \<times> string"

text \<open>A call either fails or yields a response, given here by its \<open>data\<close>.\<close>

datatype failure = NetworkError | Timeout | HttpStatus nat

type_synonym outcome = "failure + jsval"

text \<open>\<open>URLSearchParams\<close>: a list of name-value pairs of strings.\<close>

type_synonym search_params = "(string \<times> string) list"

definition append_param :: "search_params \<Rightarrow> string \<Rightarrow> string \<Rightarrow> search_params" where
  "append_param qp name val = qp @ [(name, val)]"

definition params_toString :: "platform \<Rightarrow> search_params \<Rightarrow> string" where
  "params_toString pf qp =
     intercalate ''&'' (map (\<lambda>(name, val). encode pf name @ ''='' @ encode pf val) qp)"

text \<open>
  The loop of \<open>getTweets\<close> over \<open>Object.entries(params)\<close>: a value passes the three
  strict inequalities or its key is skipped; \<open>append\<close> coerces the value to a string.
\<close>

fun getTweets_params :: "platform \<Rightarrow> search_params \<Rightarrow> obj \<Rightarrow> search_params" where
  "getTweets_params pf qp [] = qp"
| "getTweets_params pf qp ((key, val) # es) =
     getTweets_params pf
       (if val \<noteq> JUndefined \<and> val \<noteq> JNull \<and> val \<noteq> JStr ''''
        then append_param qp key (ToString pf val) else qp)
       es"

definition getTweets :: "platform \<Rightarrow> obj \<Rightarrow> request" where
  "getTweets pf params = (GET, ''/tweets?'' @ params_toString pf (getTweets_params pf [] params))"

text \<open>\<open>getSessions\<close> has the default \<open>limit = 10\<close>, used when the argument is \<open>undefined\<close>.\<close>

definition getSessions :: "platform \<Rightarrow> jsval \<Rightarrow> request" where
  "getSessions pf limit =
     (GET, ''/scraper/sessions?limit='' @
           ToString pf (if limit = JUndefined then JNumber (Finite 10) else limit))"

definition getAnalytics :: request where
  "getAnalytics = (GET, ''/analytics'')"

definition getConfig :: request where
  "getConfig = (GET, ''/config'')"

definition startScheduler :: request where
  "startScheduler = (POST, ''/scheduler/start'')"

definition stopScheduler :: request where
  "stopScheduler = (POST, ''/scheduler/stop'')"

definition getSchedulerStatus :: request where
  "getSchedulerStatus = (GET, ''/scheduler/status'')"

datatype toast_kind = ToastSuccess | ToastError

type_synonym toast = "toast_kind \<times> string"

section \<open>View state and effects\<close>

text \<open>
  The state both components share: the loading flag, and the effects the model records,
  the requests issued (in order) and the notifications shown. Console output is not
  modelled.
\<close>

record ui =
  loading :: bool
  requests :: "request list"
  toasts :: "toast list"

text \<open>Sequencing of evaluation steps that may throw.\<close>

definition and_then :: "js_error + 'a \<Rightarrow> ('a \<Rightarrow> js_error + 'b) \<Rightarrow> js_error + 'b" where
  "and_then r f = (case r of Inl e \<Rightarrow> Inl e | Inr x \<Rightarrow> f x)"


subsection \<open>Rendering\<close>









section \<open>The tweet browser\<close>

record tweets_state = ui +
  tweets :: jsval
  filters :: obj
  selectedTweet :: jsval

definition initial_filters :: obj where
  "initial_filters =
     [(''query'', JStr ''''), (''author'', JStr ''''), (''category'', JStr ''''),
      (''sentiment'', JStr ''''), (''has_media'', JNull), (''is_thread'', JNull),
      (''min_quality_score'', JNull), (''limit'', JNumber (Finite 20)),
      (''offset'', JNumber (Finite 0))]"

definition initial_tweets_state :: tweets_state where
  "initial_tweets_state =
     \<lparr>loading = True, requests = [], toasts = [],
      tweets = JArr [], filters = initial_filters, selectedTweet = JNull\<rparr>"

text \<open>
  \<open>fetchTweets\<close>, run to its end: \<open>res\<close> is what the awaited call yields. The request is
  built from the filters of the render the effect belongs to.
\<close>

definition fetchTweets :: "platform \<Rightarrow> outcome \<Rightarrow> tweets_state \<Rightarrow> tweets_state" where
  "fetchTweets pf res st =
     (let st1 = st\<lparr>loading := True, requests := requests st @ [getTweets pf (filters st)]\<rparr>;
          st2 = (case res of
                   Inr data \<Rightarrow> st1\<lparr>tweets := data\<rparr>
                 | Inl err \<Rightarrow> st1\<lparr>toasts := toasts st1 @ [(ToastError, ''Failed to load tweets'')]\<rparr>)
      in st2\<lparr>loading := False\<rparr>)"

text \<open>
  The two updaters passed to \<open>setFilters\<close>. The spread copies the properties of \<open>prev\<close>
  in order; objects are values here, so the copy is \<open>prev\<close>.
\<close>

definition handleFilterChange :: "string \<Rightarrow> jsval \<Rightarrow> obj \<Rightarrow> obj" where
  "handleFilterChange key val prev = obj_set ''offset'' (JNumber (Finite 0)) (obj_set key val prev)"

definition handleLoadMore :: "platform \<Rightarrow> obj \<Rightarrow> obj" where
  "handleLoadMore pf prev =
     obj_set ''offset'' (js_add pf (obj_get prev ''offset'') (obj_get prev ''limit'')) prev"

text \<open>
  An event sets the filters, and the effect on \<open>[filters]\<close> then runs \<open>fetchTweets\<close>
  with the new filters.
\<close>

definition change_filter ::
  "platform \<Rightarrow> outcome \<Rightarrow> string \<Rightarrow> jsval \<Rightarrow> tweets_state \<Rightarrow> tweets_state" where
  "change_filter pf res key val st =
     fetchTweets pf res (st\<lparr>filters := handleFilterChange key val (filters st)\<rparr>)"

definition load_more :: "platform \<Rightarrow> outcome \<Rightarrow> tweets_state \<Rightarrow> tweets_state" where
  "load_more pf res st = fetchTweets pf res (st\<lparr>filters := handleLoadMore pf (filters st)\<rparr>)"

text \<open>
  The filters the component can hold: the initial ones, and those that its controls produce.
  The text inputs and the sentiment select pass a string, the media select \<open>null\<close> or a
  boolean, the quality select \<open>null\<close> or the result of \<open>parseFloat\<close>.
\<close>

inductive filter_states :: "platform \<Rightarrow> obj \<Rightarrow> bool" for pf :: platform where
  initial: "filter_states pf initial_filters"
| query: "filter_states pf f \<Longrightarrow> filter_states pf (handleFilterChange ''query'' (JStr s) f)"
| author: "filter_states pf f \<Longrightarrow> filter_states pf (handleFilterChange ''author'' (JStr s) f)"
| sentiment:
    "filter_states pf f \<Longrightarrow> filter_states pf (handleFilterChange ''sentiment'' (JStr s) f)"
| has_media_all:
    "filter_states pf f \<Longrightarrow> filter_states pf (handleFilterChange ''has_media'' JNull f)"
| has_media:
    "filter_states pf f \<Longrightarrow> filter_states pf (handleFilterChange ''has_media'' (JBool b) f)"
| quality_all:
    "filter_states pf f \<Longrightarrow> filter_states pf (handleFilterChange ''min_quality_score'' JNull f)"
| quality:
    "filter_states pf f \<Longrightarrow>
       filter_states pf (handleFilterChange ''min_quality_score'' (JNumber n) f)"
| more: "filter_states pf f \<Longrightarrow> filter_states pf (handleLoadMore pf f)"

definition getQualityColor :: "platform \<Rightarrow> jsval \<Rightarrow> string" where
  "getQualityColor pf score =
     (if js_ge pf score (JNumber (Finite (8 / 10))) then ''text-green-600 bg-green-100''
      else if js_ge pf score (JNumber (Finite (6 / 10))) then ''text-yellow-600 bg-yellow-100''
      else ''text-red-600 bg-red-100'')"

















section \<open>The operations dashboard\<close>

record dashboard_state = ui +
  analytics :: jsval
  schedulerStatus :: jsval
  sessions :: jsval
  config :: jsval

definition initial_dashboard_state :: dashboard_state where
  "initial_dashboard_state =
     \<lparr>loading = True, requests = [], toasts = [],
      analytics = JNull, schedulerStatus = JNull, sessions = JArr [], config = JNull\<rparr>"

text \<open>What the four concurrent calls of one fetch yield.\<close>

record dashboard_responses =
  analyticsRes :: outcome
  schedulerRes :: outcome
  sessionsRes :: outcome
  configRes :: outcome

text \<open>\<open>call.catch(() => ({ data: d }))\<close> followed by \<open>.data\<close>.\<close>

definition catch_data :: "outcome \<Rightarrow> jsval \<Rightarrow> jsval" where
  "catch_data res d = (case res of Inl err \<Rightarrow> d | Inr data \<Rightarrow> data)"

text \<open>
  \<open>fetchDashboardData\<close>, run to its end. Every call carries its own handler, so
  \<open>Promise.all\<close> never rejects and the outer \<open>catch\<close> is never entered.
\<close>

definition fetchDashboardData ::
  "platform \<Rightarrow> dashboard_responses \<Rightarrow> dashboard_state \<Rightarrow> dashboard_state" where
  "fetchDashboardData pf rs st =
     (let st1 = st\<lparr>loading := True,
                    requests := requests st @
                      [getAnalytics, getSchedulerStatus, getSessions pf (JNumber (Finite 5)),
                       getConfig]\<rparr>;
          st2 = st1\<lparr>analytics := catch_data (analyticsRes rs) (JObj []),
                     schedulerStatus := catch_data (schedulerRes rs) (JObj []),
                     sessions := catch_data (sessionsRes rs) (JArr []),
                     config := catch_data (configRes rs) (JObj [])\<rparr>
      in st2\<lparr>loading := False\<rparr>)"

text \<open>
  \<open>handleToggleScheduler\<close>: \<open>res\<close> is what the awaited start or stop call yields, and
  \<open>rs\<close> what the calls of the refetch yield.
\<close>

definition handleToggleScheduler ::
  "platform \<Rightarrow> outcome \<Rightarrow> dashboard_responses \<Rightarrow> dashboard_state \<Rightarrow> dashboard_state" where
  "handleToggleScheduler pf res rs st =
     (let running = ToBoolean (opt_get (schedulerStatus st) ''running'');
          st1 = st\<lparr>requests := requests st @ [if running then stopScheduler else startScheduler]\<rparr>
      in case res of
           Inr data \<Rightarrow>
             fetchDashboardData pf rs
               (st1\<lparr>toasts := toasts st1 @
                  [(ToastSuccess, if running then ''Scheduler stopped'' else ''Scheduler started'')]\<rparr>)
         | Inl err \<Rightarrow> st1\<lparr>toasts := toasts st1 @ [(ToastError, ''Failed to toggle scheduler'')]\<rparr>)"









section \<open>Examples\<close>

text \<open>
  An instance on which the examples are evaluated: it prints natural numbers in decimal and
  escapes nothing. The examples read no string as a number.
\<close>

fun decimal :: "nat \<Rightarrow> string" where
  "decimal n =
     (if n < 10 then [''0123456789'' ! n]
      else decimal (n div 10) @ [''0123456789'' ! (n mod 10)])"

definition example_platform :: platform where
  "example_platform =
     \<lparr>numToString = (\<lambda>r. decimal (nat \<lfloor>r\<rfloor>)), stringToNumber = (\<lambda>s. NaN),
      encode = (\<lambda>s. s), doubleAdd = (\<lambda>a b. Finite (a + b)), toLowerCase = (\<lambda>s. s),
      dateParse = (\<lambda>s. if s = ''2024-01-01T00:00:00Z'' then Finite 1704067200000 else NaN),
      distanceToNow = (\<lambda>t. ''some time ago'')\<rparr>"







section \<open>Auxiliary facts\<close>

declare decimal.simps [simp del]

lemma map_of_obj_set: "map_of (obj_set k v ps) = (map_of ps)(k \<mapsto> v)"
  by (induction ps) (auto simp: fun_eq_iff)

lemma keys_obj_set:
  "map fst (obj_set k v ps) = (if k \<in> fst ` set ps then map fst ps else map fst ps @ [k])"
  by (induction ps) (auto split: if_splits)

lemma distinct_obj_set: "distinct (map fst ps) \<Longrightarrow> distinct (map fst (obj_set k v ps))"
  by (simp add: keys_obj_set)

lemma obj_get_obj_set: "obj_get (obj_set k v ps) k' = (if k' = k then v else obj_get ps k')"
  by (simp add: obj_get_def map_of_obj_set)

lemma mem_obj_set: "(k, v) \<in> set (obj_set k v ps)"
  by (induction ps) auto

lemma set_obj_set_distinct:
  assumes "distinct (map fst ps)" and "(k, w) \<in> set (obj_set k v ps)"
  shows "w = v"
proof -
  have "distinct (map fst (obj_set k v ps))"
    using assms(1) by (rule distinct_obj_set)
  then have "map_of (obj_set k v ps) k = Some w"
    using assms(2) by (rule map_of_is_SomeI)
  then show ?thesis by (simp add: map_of_obj_set)
qed

lemma getTweets_params_filter:
  "getTweets_params pf qp es =
     qp @ map (\<lambda>(k, v). (k, ToString pf v))
            (filter (\<lambda>(k, v). v \<noteq> JUndefined \<and> v \<noteq> JNull \<and> v \<noteq> JStr '''') es)"
  by (induction es arbitrary: qp) (auto simp: append_param_def)

lemma distinct_same_key:
  "distinct (map fst ps) \<Longrightarrow> (k, v) \<in> set ps \<Longrightarrow> (k, w) \<in> set ps \<Longrightarrow> v = w"
  by (metis map_of_is_SomeI option.inject)

lemma js_ge_num: "js_ge pf (JNumber (Finite a)) (JNumber (Finite b)) = (b \<le> a)"
  by (auto simp: js_ge_def js_lt_def)


lemma keys_set_obj_set: "fst ` set (obj_set k v ps) = insert k (fst ` set ps)"
proof -
  have "set (map fst (obj_set k v ps)) = insert k (set (map fst ps))"
    by (auto simp: keys_obj_set)
  then show ?thesis by simp
qed

lemma obj_get_key: "obj_get ps k \<noteq> JUndefined \<Longrightarrow> k \<in> fst ` set ps"
  by (cases "map_of ps k") (auto simp: obj_get_def dest: map_of_SomeD intro: rev_image_eqI)

lemma and_then_Inr [simp]: "and_then (Inr x) f = f x"
  by (simp add: and_then_def)

lemma and_then_Inl [simp]: "and_then (Inl e) f = Inl e"
  by (simp add: and_then_def)







lemma filter_states_shape:
  assumes "filter_states pf f"
  shows "map fst f = map fst initial_filters
     \<and> obj_get f ''limit'' = JNumber (Finite 20)
     \<and> (\<exists>n. obj_get f ''offset'' = JNumber n)
     \<and> (obj_get f ''has_media'' = JNull \<or> (\<exists>b. obj_get f ''has_media'' = JBool b))"
  using assms
proof (induction rule: filter_states.induct)
  case initial
  show ?case
    by (simp add: initial_filters_def obj_get_def)
next
  case (more f)
  then obtain n where n: "obj_get f ''offset'' = JNumber n"
    by blast
  from more have l: "obj_get f ''limit'' = JNumber (Finite 20)"
    and k: "map fst f = map fst initial_filters"
    and m: "obj_get f ''has_media'' = JNull \<or> (\<exists>b. obj_get f ''has_media'' = JBool b)"
    by blast+
  have h: "handleLoadMore pf f = obj_set ''offset'' (JNumber (num_add pf n (Finite 20))) f"
    using n l by (simp add: handleLoadMore_def js_add_def)
  have "''offset'' \<in> fst ` set f"
    using n by (auto intro: obj_get_key)
  then have "map fst (handleLoadMore pf f) = map fst initial_filters"
    using k by (simp add: h keys_obj_set)
  moreover have "obj_get (handleLoadMore pf f) ''limit'' = JNumber (Finite 20)"
    using l by (simp add: h obj_get_obj_set)
  moreover have "\<exists>n'. obj_get (handleLoadMore pf f) ''offset'' = JNumber n'"
    by (simp add: h obj_get_obj_set)
  moreover have "obj_get (handleLoadMore pf f) ''has_media'' = JNull
      \<or> (\<exists>b. obj_get (handleLoadMore pf f) ''has_media'' = JBool b)"
    using m by (simp add: h obj_get_obj_set)
  ultimately show ?case by blast
qed (auto simp: handleFilterChange_def obj_get_obj_set keys_obj_set keys_set_obj_set
    initial_filters_def)







section \<open>The query of the tweet list\<close>

text \<open>
  Claim C1. For every filter object passed to \<open>getTweets\<close> (an object has distinct keys),
  the parameters of the query are the entries whose value is none of \<open>undefined\<close>,
  \<open>null\<close> and the empty string, in order, each with its value coerced to a string. So a
  key with one of the three values is not a parameter of the query, every other key is a
  parameter with its coerced value, and the query string is the serialization of these
  parameters.
\<close>

theorem getTweets_query:
  assumes "distinct (map fst params)"
  shows "getTweets_params pf [] params =
           map (\<lambda>(k, v). (k, ToString pf v))
             (filter (\<lambda>(k, v). v \<noteq> JUndefined \<and> v \<noteq> JNull \<and> v \<noteq> JStr '''') params)
         \<and> (\<forall>(k, v) \<in> set params.
              if v = JUndefined \<or> v = JNull \<or> v = JStr ''''
              then k \<notin> fst ` set (getTweets_params pf [] params)
              else (k, ToString pf v) \<in> set (getTweets_params pf [] params))
         \<and> getTweets pf params =
             (GET, ''/tweets?'' @ intercalate ''&''
                (map (\<lambda>(k, v). encode pf k @ ''='' @ encode pf (ToString pf v))
                   (filter (\<lambda>(k, v). v \<noteq> JUndefined \<and> v \<noteq> JNull \<and> v \<noteq> JStr '''') params)))"
proof (intro conjI)
  let ?keep = "\<lambda>(k, v). v \<noteq> JUndefined \<and> v \<noteq> JNull \<and> v \<noteq> JStr ''''"
  show eq: "getTweets_params pf [] params = map (\<lambda>(k, v). (k, ToString pf v)) (filter ?keep params)"
    by (simp add: getTweets_params_filter)
  show "\<forall>(k, v) \<in> set params.
          if v = JUndefined \<or> v = JNull \<or> v = JStr ''''
          then k \<notin> fst ` set (getTweets_params pf [] params)
          else (k, ToString pf v) \<in> set (getTweets_params pf [] params)"
  proof (clarify)
    fix k v
    assume kv: "(k, v) \<in> set params"
    show "if v = JUndefined \<or> v = JNull \<or> v = JStr ''''
          then k \<notin> fst ` set (getTweets_params pf [] params)
          else (k, ToString pf v) \<in> set (getTweets_params pf [] params)"
    proof (cases "v = JUndefined \<or> v = JNull \<or> v = JStr ''''")
      case True
      have "k \<notin> fst ` set (getTweets_params pf [] params)"
      proof
        assume "k \<in> fst ` set (getTweets_params pf [] params)"
        then obtain w where w: "(k, w) \<in> set params" and keep: "?keep (k, w)"
          unfolding eq by auto
        from assms kv w have "v = w" by (rule distinct_same_key)
        with True keep show False by auto
      qed
      with True show ?thesis by simp
    next
      case False
      with kv have "(k, ToString pf v) \<in> set (getTweets_params pf [] params)"
        unfolding eq by force
      with False show ?thesis by simp
    qed
  qed
  show "getTweets pf params =
          (GET, ''/tweets?'' @ intercalate ''&''
             (map (\<lambda>(k, v). encode pf k @ ''='' @ encode pf (ToString pf v)) (filter ?keep params)))"
    by (simp add: getTweets_def params_toString_def eq comp_def split_def)
qed

theorem getTweets_query_witness:
  "distinct (map fst initial_filters)
   \<and> getTweets_params example_platform [] initial_filters = [(''limit'', ''20''), (''offset'', ''0'')]
   \<and> getTweets example_platform initial_filters = (GET, ''/tweets?limit=20&offset=0'')"
proof -
  have d: "distinct (map fst initial_filters)"
    by (simp add: initial_filters_def)
  from getTweets_query [OF d, of example_platform] d show ?thesis
    by (simp add: initial_filters_def example_platform_def decimal.simps)
qed

section \<open>Fetching the list\<close>

text \<open>
  Claim C3. After every successful fetch the displayed list is the data of the response,
  whatever was displayed before: for a fetch as such, for the one that load more triggers
  and for the one that a filter change triggers.
\<close>

theorem fetch_replaces_list:
  "tweets (fetchTweets pf (Inr data) st) = data
   \<and> tweets (load_more pf (Inr data) st) = data
   \<and> tweets (change_filter pf (Inr data) key val st) = data"
  by (simp add: fetchTweets_def load_more_def change_filter_def Let_def)

text \<open>
  Claim C7. A fetch that fails leaves the list, the filters and the selection as they were
  and clears the loading flag; beside that it only records the request and shows the
  notification.
\<close>

theorem fetch_failure_keeps_state:
  "fetchTweets pf (Inl err) st =
     st\<lparr>loading := False,
        requests := requests st @ [getTweets pf (filters st)],
        toasts := toasts st @ [(ToastError, ''Failed to load tweets'')]\<rparr>
   \<and> tweets (fetchTweets pf (Inl err) st) = tweets st
   \<and> filters (fetchTweets pf (Inl err) st) = filters st
   \<and> selectedTweet (fetchTweets pf (Inl err) st) = selectedTweet st
   \<and> loading (fetchTweets pf (Inl err) st) = False"
  by (simp add: fetchTweets_def Let_def)

section \<open>Filters and pagination\<close>

text \<open>
  Claim C4. Changing a filter field other than \<open>offset\<close> to any value gives filters whose
  \<open>offset\<close> is 0 and whose changed field has the new value; the fetch that follows uses
  these filters, and its query has the parameter \<open>offset\<close> with the string of 0 (and, the
  filters being an object, with no other value).
\<close>

theorem filter_change_resets_offset:
  assumes ne: "key \<noteq> ''offset''"
  shows "obj_get (handleFilterChange key val prev) ''offset'' = JNumber (Finite 0)
     \<and> obj_get (handleFilterChange key val prev) key = val
     \<and> filters (change_filter pf res key val st) = handleFilterChange key val (filters st)
     \<and> requests (change_filter pf res key val st) =
         requests st @ [getTweets pf (handleFilterChange key val (filters st))]
     \<and> (''offset'', numToString pf 0)
         \<in> set (getTweets_params pf [] (handleFilterChange key val (filters st)))
     \<and> (distinct (map fst (filters st)) \<longrightarrow>
          (\<forall>w. (''offset'', w) \<in> set (getTweets_params pf [] (handleFilterChange key val (filters st)))
             \<longrightarrow> w = numToString pf 0))"
proof (intro impI conjI allI)
  show "obj_get (handleFilterChange key val prev) ''offset'' = JNumber (Finite 0)"
    by (simp add: handleFilterChange_def obj_get_obj_set)
  show "obj_get (handleFilterChange key val prev) key = val"
    using ne by (simp add: handleFilterChange_def obj_get_obj_set)
  show "filters (change_filter pf res key val st) = handleFilterChange key val (filters st)"
    by (simp add: change_filter_def fetchTweets_def Let_def split: sum.split)
  show "requests (change_filter pf res key val st) =
          requests st @ [getTweets pf (handleFilterChange key val (filters st))]"
    by (simp add: change_filter_def fetchTweets_def Let_def split: sum.split)
  have m: "(''offset'', JNumber (Finite 0)) \<in> set (handleFilterChange key val (filters st))"
    by (simp add: handleFilterChange_def mem_obj_set)
  then show "(''offset'', numToString pf 0)
          \<in> set (getTweets_params pf [] (handleFilterChange key val (filters st)))"
    by (force simp: getTweets_params_filter)
  fix w
  assume d: "distinct (map fst (filters st))"
    and w: "(''offset'', w) \<in> set (getTweets_params pf [] (handleFilterChange key val (filters st)))"
  from w obtain v where v: "(''offset'', v) \<in> set (handleFilterChange key val (filters st))"
    and wv: "w = ToString pf v"
    by (auto simp: getTweets_params_filter)
  from d have "distinct (map fst (obj_set key val (filters st)))"
    by (rule distinct_obj_set)
  then have "v = JNumber (Finite 0)"
    using v unfolding handleFilterChange_def by (rule set_obj_set_distinct)
  with wv show "w = numToString pf 0" by simp
qed

text \<open>The example: a second page is loaded, then the query is changed.\<close>

theorem filter_change_resets_offset_witness:
  "''query'' \<noteq> ''offset''
   \<and> distinct (map fst (filters (load_more example_platform (Inr (JArr [])) initial_tweets_state)))
   \<and> obj_get (filters (load_more example_platform (Inr (JArr [])) initial_tweets_state)) ''offset''
       = JNumber (Finite 20)
   \<and> requests (change_filter example_platform (Inr (JArr [])) ''query'' (JStr ''ai'')
        (load_more example_platform (Inr (JArr [])) initial_tweets_state)) =
       [(GET, ''/tweets?limit=20&offset=20''), (GET, ''/tweets?query=ai&limit=20&offset=0'')]"
proof -
  let ?st = "load_more example_platform (Inr (JArr [])) initial_tweets_state"
  have ne: "''query'' \<noteq> ''offset''" by simp
  have f: "filters (load_more example_platform (Inr (JArr [])) initial_tweets_state) =
             obj_set ''offset'' (JNumber (Finite 20)) initial_filters"
    by (simp add: load_more_def fetchTweets_def Let_def handleLoadMore_def js_add_def exact_integer_def
        initial_tweets_state_def initial_filters_def obj_get_def)
  have r: "requests (load_more example_platform (Inr (JArr [])) initial_tweets_state) =
             [(GET, ''/tweets?limit=20&offset=20'')]"
    by (simp add: load_more_def fetchTweets_def Let_def handleLoadMore_def js_add_def exact_integer_def
        initial_tweets_state_def initial_filters_def obj_get_def getTweets_def
        params_toString_def append_param_def example_platform_def decimal.simps)
  have q: "getTweets example_platform
             (handleFilterChange ''query'' (JStr ''ai'')
                (obj_set ''offset'' (JNumber (Finite 20)) initial_filters)) =
           (GET, ''/tweets?query=ai&limit=20&offset=0'')"
    by (simp add: initial_filters_def handleFilterChange_def getTweets_def
        params_toString_def append_param_def example_platform_def decimal.simps)
  have d: "distinct (map fst (obj_set ''offset'' (JNumber (Finite 20)) initial_filters))"
    by (simp add: initial_filters_def)
  have o: "obj_get (obj_set ''offset'' (JNumber (Finite 20)) initial_filters) ''offset'' =
             JNumber (Finite 20)"
    by (simp add: obj_get_obj_set)
  have "requests (change_filter example_platform (Inr (JArr [])) ''query'' (JStr ''ai'') ?st) =
          requests ?st @
            [getTweets example_platform (handleFilterChange ''query'' (JStr ''ai'') (filters ?st))]"
    using filter_change_resets_offset [OF ne, of "JStr ''ai''" initial_filters example_platform
        "Inr (JArr [])" ?st]
    by blast
  then have "requests (change_filter example_platform (Inr (JArr [])) ''query'' (JStr ''ai'') ?st) =
          [(GET, ''/tweets?limit=20&offset=20''), (GET, ''/tweets?query=ai&limit=20&offset=0'')]"
    by (simp only: f r q append.simps)
  with ne d o show ?thesis
    by (simp only: f simp_thms)
qed

text \<open>
  Claim C5. For filters whose \<open>offset\<close> and \<open>limit\<close> are integers that a double holds
  exactly, with a sum of that kind (magnitudes at most \<open>2 ^ 53\<close>, as for the offsets and
  the page size the component works with), load more gives filters whose \<open>offset\<close> is the
  sum of the two; every other property, \<open>limit\<close> and the seven filter fields among them,
  keeps its value, and the properties keep their order.
\<close>

theorem load_more_advances_offset:
  assumes "obj_get prev ''offset'' = JNumber (Finite a)"
    and "obj_get prev ''limit'' = JNumber (Finite b)"
    and "exact_integer a" and "exact_integer b" and "exact_integer (a + b)"
  shows "obj_get (handleLoadMore pf prev) ''offset'' = JNumber (Finite (a + b))
     \<and> (\<forall>k. k \<noteq> ''offset'' \<longrightarrow> obj_get (handleLoadMore pf prev) k = obj_get prev k)
     \<and> map fst (handleLoadMore pf prev) = map fst prev"
proof -
  have "''offset'' \<in> fst ` set prev"
    using assms(1) by (auto intro: obj_get_key)
  then show ?thesis
    using assms by (simp add: handleLoadMore_def obj_get_obj_set js_add_def keys_obj_set)
qed

theorem load_more_advances_offset_witness:
  "obj_get initial_filters ''offset'' = JNumber (Finite 0)
   \<and> obj_get initial_filters ''limit'' = JNumber (Finite 20)
   \<and> exact_integer 0 \<and> exact_integer 20 \<and> exact_integer (0 + 20)
   \<and> handleLoadMore example_platform initial_filters =
       [(''query'', JStr ''''), (''author'', JStr ''''), (''category'', JStr ''''),
        (''sentiment'', JStr ''''), (''has_media'', JNull), (''is_thread'', JNull),
        (''min_quality_score'', JNull), (''limit'', JNumber (Finite 20)),
        (''offset'', JNumber (Finite 20))]"
proof -
  have a: "obj_get initial_filters ''offset'' = JNumber (Finite 0)"
    by (simp add: initial_filters_def obj_get_def)
  have b: "obj_get initial_filters ''limit'' = JNumber (Finite 20)"
    by (simp add: initial_filters_def obj_get_def)
  have e0: "exact_integer 0" and e20: "exact_integer 20" and es: "exact_integer (0 + 20)"
    by (simp_all add: exact_integer_def)
  from load_more_advances_offset [OF a b e0 e20 es, of example_platform]
  have "obj_get (handleLoadMore example_platform initial_filters) ''offset'' = JNumber (Finite 20)"
    by simp
  then have "handleLoadMore example_platform initial_filters =
      obj_set ''offset'' (JNumber (Finite 20)) initial_filters"
    by (simp add: handleLoadMore_def obj_get_obj_set)
  with a b e0 e20 es show ?thesis
    by (simp add: initial_filters_def)
qed



section \<open>The tweet card\<close>

text \<open>
  Claim C8. A numeric quality score of at least 0.8 gets the green (high) styling, one of
  at least 0.6 and below 0.8 the yellow (medium) styling, one below 0.6 the red (low)
  styling; so 0.85 is high, 0.65 medium and 0.3 low.
\<close>

theorem quality_thresholds:
  "(8 / 10 \<le> s \<longrightarrow> getQualityColor pf (JNumber (Finite s)) = ''text-green-600 bg-green-100'')
   \<and> (6 / 10 \<le> s \<and> s < 8 / 10 \<longrightarrow>
        getQualityColor pf (JNumber (Finite s)) = ''text-yellow-600 bg-yellow-100'')
   \<and> (s < 6 / 10 \<longrightarrow> getQualityColor pf (JNumber (Finite s)) = ''text-red-600 bg-red-100'')
   \<and> getQualityColor pf (JNumber (Finite (85 / 100))) = ''text-green-600 bg-green-100''
   \<and> getQualityColor pf (JNumber (Finite (65 / 100))) = ''text-yellow-600 bg-yellow-100''
   \<and> getQualityColor pf (JNumber (Finite (3 / 10))) = ''text-red-600 bg-red-100''"
  by (simp add: getQualityColor_def js_ge_num)

theorem quality_thresholds_witness:
  "(8 / 10 \<le> (9 / 10 :: real))
   \<and> getQualityColor example_platform (JNumber (Finite (9 / 10))) = ''text-green-600 bg-green-100''
   \<and> (6 / 10 \<le> (7 / 10 :: real) \<and> (7 / 10 :: real) < 8 / 10)
   \<and> getQualityColor example_platform (JNumber (Finite (7 / 10))) = ''text-yellow-600 bg-yellow-100''
   \<and> ((1 / 2 :: real) < 6 / 10)
   \<and> getQualityColor example_platform (JNumber (Finite (1 / 2))) = ''text-red-600 bg-red-100''"
  using quality_thresholds [of "9 / 10" example_platform]
    quality_thresholds [of "7 / 10" example_platform]
    quality_thresholds [of "1 / 2" example_platform]
  by simp



section \<open>The dashboard\<close>




text \<open>
  Claim C6, as the code has it. The toggle issues one request after those issued before:
  the stop request when the status is an object whose \<open>running\<close> is \<open>true\<close>, the start
  request when \<open>running\<close> is \<open>false\<close> or missing or the status is \<open>null\<close> or
  \<open>undefined\<close>. When that call succeeds, the four requests of the dashboard fetch follow
  at once; when it fails, no request follows and the failure is notified.
\<close>

theorem toggle_scheduler:
  "take (length (requests st)) (requests (handleToggleScheduler pf res rs st)) = requests st
   \<and> (\<forall>ps. schedulerStatus st = JObj ps \<and> obj_get ps ''running'' = JBool True \<longrightarrow>
         requests (handleToggleScheduler pf res rs st) ! length (requests st) = stopScheduler)
   \<and> (\<forall>ps. schedulerStatus st = JObj ps
           \<and> (obj_get ps ''running'' = JBool False \<or> obj_get ps ''running'' = JUndefined) \<longrightarrow>
         requests (handleToggleScheduler pf res rs st) ! length (requests st) = startScheduler)
   \<and> (schedulerStatus st = JNull \<or> schedulerStatus st = JUndefined \<longrightarrow>
         requests (handleToggleScheduler pf res rs st) ! length (requests st) = startScheduler)
   \<and> (\<forall>d. res = Inr d \<longrightarrow>
         drop (Suc (length (requests st))) (requests (handleToggleScheduler pf res rs st)) =
           [getAnalytics, getSchedulerStatus, getSessions pf (JNumber (Finite 5)), getConfig])
   \<and> (\<forall>e. res = Inl e \<longrightarrow>
         drop (Suc (length (requests st))) (requests (handleToggleScheduler pf res rs st)) = []
         \<and> toasts (handleToggleScheduler pf res rs st) =
             toasts st @ [(ToastError, ''Failed to toggle scheduler'')])"
  by (cases res)
    (auto simp: handleToggleScheduler_def fetchDashboardData_def Let_def opt_get_def
      nth_append)

text \<open>
  The examples: a running scheduler is stopped, a stopped one is started, and with no
  status yet the start call times out.
\<close>

theorem toggle_scheduler_witness:
  "requests (handleToggleScheduler example_platform (Inr (JObj []))
      \<lparr>analyticsRes = Inr (JObj []), schedulerRes = Inr (JObj [(''running'', JBool False)]),
       sessionsRes = Inr (JArr []), configRes = Inr (JObj [])\<rparr>
      (initial_dashboard_state\<lparr>schedulerStatus := JObj [(''running'', JBool True)]\<rparr>)) =
     [(POST, ''/scheduler/stop''), (GET, ''/analytics''), (GET, ''/scheduler/status''),
      (GET, ''/scraper/sessions?limit=5''), (GET, ''/config'')]
   \<and> requests (handleToggleScheduler example_platform (Inr (JObj []))
      \<lparr>analyticsRes = Inr (JObj []), schedulerRes = Inr (JObj [(''running'', JBool True)]),
       sessionsRes = Inr (JArr []), configRes = Inr (JObj [])\<rparr>
      (initial_dashboard_state\<lparr>schedulerStatus := JObj [(''running'', JBool False)]\<rparr>)) =
     [(POST, ''/scheduler/start''), (GET, ''/analytics''), (GET, ''/scheduler/status''),
      (GET, ''/scraper/sessions?limit=5''), (GET, ''/config'')]
   \<and> schedulerStatus initial_dashboard_state = JNull
   \<and> requests (handleToggleScheduler example_platform (Inl Timeout)
      \<lparr>analyticsRes = Inr (JObj []), schedulerRes = Inr (JObj []),
       sessionsRes = Inr (JArr []), configRes = Inr (JObj [])\<rparr>
      initial_dashboard_state) = [(POST, ''/scheduler/start'')]"
  using
    toggle_scheduler [of
      "initial_dashboard_state\<lparr>schedulerStatus := JObj [(''running'', JBool True)]\<rparr>"
      example_platform "Inr (JObj [])"
      "\<lparr>analyticsRes = Inr (JObj []), schedulerRes = Inr (JObj [(''running'', JBool False)]),
        sessionsRes = Inr (JArr []), configRes = Inr (JObj [])\<rparr>"]
    toggle_scheduler [of
      "initial_dashboard_state\<lparr>schedulerStatus := JObj [(''running'', JBool False)]\<rparr>"
      example_platform "Inr (JObj [])"
      "\<lparr>analyticsRes = Inr (JObj []), schedulerRes = Inr (JObj [(''running'', JBool True)]),
        sessionsRes = Inr (JArr []), configRes = Inr (JObj [])\<rparr>"]
    toggle_scheduler [of initial_dashboard_state example_platform "Inl Timeout"
      "\<lparr>analyticsRes = Inr (JObj []), schedulerRes = Inr (JObj []),
        sessionsRes = Inr (JArr []), configRes = Inr (JObj [])\<rparr>"]
  by (simp add: handleToggleScheduler_def fetchDashboardData_def Let_def opt_get_def obj_get_def
      initial_dashboard_state_def stopScheduler_def startScheduler_def
      getAnalytics_def getSchedulerStatus_def getSessions_def getConfig_def
      example_platform_def decimal.simps)

text \<open>
  Claim C6 as stated fails when the awaited call fails: the scheduler runs, the stop call
  fails, and the stop request is the only one issued; no refetch follows.
\<close>

theorem toggle_refetch_counterexample:
  "requests (handleToggleScheduler example_platform (Inl NetworkError)
      \<lparr>analyticsRes = Inr (JObj []), schedulerRes = Inr (JObj [(''running'', JBool False)]),
       sessionsRes = Inr (JArr []), configRes = Inr (JObj [])\<rparr>
      (initial_dashboard_state
         \<lparr>loading := False, schedulerStatus := JObj [(''running'', JBool True)]\<rparr>)) =
     [stopScheduler]"
  by (simp add: handleToggleScheduler_def Let_def opt_get_def obj_get_def
      initial_dashboard_state_def)

end
